theory Spec2Isabelle
  imports Complex_Main
begin

section \<open>JavaScript values and operators used by the screen\<close>

text \<open>
  Numbers of the observation payload are modelled as finite reals with exact arithmetic
  (JSON carries neither NaN nor an infinity). \<open>None\<close> of an option stands for a value that
  the source's loose test \<open>x == null\<close> accepts, that is for both \<open>null\<close> and \<open>undefined\<close>.
  Where the source can produce \<open>undefined\<close> as a result of its own, the result type
  \<open>js\<close> keeps it apart from \<open>null\<close>.
\<close>

datatype 'a js = Null | Undefined | Val 'a

text \<open>The source's test \<open>x != null\<close>: false for \<open>null\<close> and for \<open>undefined\<close>.\<close>

fun notNullish :: "'a js \<Rightarrow> bool" where
  "notNullish Null = False"
| "notNullish Undefined = False"
| "notNullish (Val v) = True"

text \<open>\<open>Math.round\<close>: the nearest integer, a tie going towards plus infinity.\<close>

definition Math_round :: "real \<Rightarrow> int" where
  "Math_round x = \<lfloor>x + 1 / 2\<rfloor>"

text \<open>
  The remainder operator \<open>%\<close> on integral numbers: the result has the sign of the dividend.
  (A zero divisor gives NaN in JavaScript; the source only divides by 8.)
\<close>

definition js_rem :: "int \<Rightarrow> int \<Rightarrow> int" where
  "js_rem a b = sgn a * (\<bar>a\<bar> mod \<bar>b\<bar>)"

text \<open>Reading \<open>xs[i]\<close> from an array: \<open>undefined\<close> outside the array.\<close>

definition js_index :: "'a list \<Rightarrow> int \<Rightarrow> 'a js" where
  "js_index xs i = (if 0 \<le> i \<and> i < int (length xs) then Val (xs ! nat i) else Undefined)"

section \<open>Unit conversion\<close>

definition directions :: "string list" where
  "directions = [''N'', ''NE'', ''E'', ''SE'', ''S'', ''SW'', ''W'', ''NW'']"

text \<open>The index expression \<open>Math.round(deg / 45) % 8\<close> of \<open>degreesToCardinal\<close>.\<close>

definition cardinalIndex :: "real \<Rightarrow> int" where
  "cardinalIndex deg = js_rem (Math_round (deg / 45)) 8"

definition degreesToCardinal :: "real option \<Rightarrow> string js" where
  "degreesToCardinal deg =
     (case deg of
        None \<Rightarrow> Null
      | Some d \<Rightarrow> js_index directions (cardinalIndex d))"

text \<open>
  The wind speed expression of \<open>handleMarkerPress\<close>, applied to \<open>props.windSpeed?.value\<close>:
  \<open>v != null ? Math.round(v * 2.237) : null\<close>.
\<close>

definition windSpeedMph :: "real option \<Rightarrow> int option" where
  "windSpeedMph v =
     (case v of
        None \<Rightarrow> None
      | Some mps \<Rightarrow> Some (Math_round (mps * 2.237)))"

text \<open>The humidity expression: \<open>v != null ? Math.round(v) : null\<close>.\<close>

definition humidityPct :: "real option \<Rightarrow> int option" where
  "humidityPct v =
     (case v of
        None \<Rightarrow> None
      | Some pct \<Rightarrow> Some (Math_round pct))"

text \<open>
  \<open>x.toFixed(1)\<close> is a string: the decimal rendering, with one digit after the point,
  of the double \<open>x\<close>. The digits depend on the binary value of the double and are not
  computed here: \<open>ToFixed1 x\<close> stands for the string rendered from the number \<open>x\<close>.
\<close>

datatype fixed1 = ToFixed1 real

text \<open>The temperature expression: \<open>(c * 9/5 + 32).toFixed(1)\<close>.\<close>

definition tempF :: "real \<Rightarrow> fixed1" where
  "tempF c = ToFixed1 (c * 9 / 5 + 32)"

text \<open>
  The table lookup as the specification words it: the label at index
  \<open>round(deg / 45) mod 8\<close> of the ordered list, the modulo taken in \<open>[0, 8)\<close>.
\<close>

definition degreesToCardinal_spec :: "real option \<Rightarrow> string js" where
  "degreesToCardinal_spec deg =
     (case deg of
        None \<Rightarrow> Null
      | Some d \<Rightarrow> Val (directions ! nat (Math_round (d / 45) mod 8)))"

section \<open>Data model\<close>

text \<open>A screen point \<open>{x, y}\<close> as the map hands it out.\<close>

type_synonym point = "real \<times> real"

text \<open>
  A station feature of the directory: \<open>properties.stationIdentifier\<close>, \<open>properties.name\<close>
  and \<open>geometry.coordinates\<close>, the pair \<open>[longitude, latitude]\<close>. Features are taken to
  carry their \<open>properties\<close> and \<open>geometry\<close> objects; the identifier may be null.
\<close>

record station =
  stationIdentifier :: "string option"
  name :: string
  coordinates :: "real \<times> real"

text \<open>
  The \<open>data\<close> of the station list response; \<open>features\<close> is \<open>None\<close> when the payload
  has no such key (an empty object, or a body that is not the expected document).
\<close>

record stations_data =
  features :: "station list option"

text \<open>
  A measurement object \<open>{value: ...}\<close> of the observation payload is represented by its
  \<open>value\<close>, \<open>None\<close> when that is null. A field of \<open>props\<close> is \<open>None\<close> when the
  measurement object itself is null or missing.
\<close>

type_synonym quantity = "real option"

record props =
  temperature :: "quantity option"
  textDescription :: "string option"
  windSpeed :: "quantity option"
  windDirection :: "quantity option"
  relativeHumidity :: "quantity option"

record obs_data =
  properties :: "props option"

text \<open>
  The outcome of \<open>await axios.get(...)\<close>: the promise rejects (a network error or an
  error status; the \<open>await\<close> throws) or resolves with a response whose \<open>data\<close> is
  given. For the station list \<open>None\<close> is a \<open>response.data\<close> that is null or undefined,
  so that reading a key of it throws. For an observation \<open>None\<close> is a \<open>response.data\<close>
  that the condition of \<open>handleMarkerPress\<close> finds falsy.
\<close>

datatype 'a settled = Rejected | Resolved 'a

type_synonym stations_response = "stations_data option settled"

type_synonym obs_response = "obs_data option settled"

text \<open>The \<open>weather\<close> object of a callout.\<close>

record weather =
  temp :: fixed1
  conditions :: "string option"
  windSpeed :: "int option"
  windDirection :: "string js"
  humidity :: "int option"

text \<open>
  The object passed to \<open>setCalloutData\<close>. The source builds three shapes of it; a key
  that a shape leaves out is \<open>None\<close> here.
\<close>

record callout =
  stationName :: string
  loading :: bool
  position :: point
  error :: "string option"
  weather :: "weather option"

text \<open>
  The component state: the three \<open>useState\<close> cells and the console. \<open>stations\<close> is
  \<open>None\<close> when the cell holds \<open>undefined\<close>.
\<close>

record app =
  stations :: "station list option"
  loading :: bool
  calloutData :: "callout option"
  console :: "string list"

text \<open>The two files of the repository.\<close>

datatype variant = App_js | Part_000

section \<open>Effects\<close>

text \<open>
  What the handlers do to the outside, in program order: calls to the map and to the HTTP
  client, state setters and console output.
\<close>

datatype effect =
    AxiosGetStations nat
  | SetStations "station list option"
  | SetLoading bool
  | PointForCoordinate real real
  | SetCalloutData "callout option"
  | AxiosGetObservation "string option"
  | ConsoleError string

fun perform :: "effect \<Rightarrow> app \<Rightarrow> app" where
  "perform (SetStations fs) s = s\<lparr>stations := fs\<rparr>"
| "perform (SetLoading b) s = s\<lparr>app.loading := b\<rparr>"
| "perform (SetCalloutData c) s = s\<lparr>calloutData := c\<rparr>"
| "perform (ConsoleError m) s = s\<lparr>console := console s @ [m]\<rparr>"
| "perform (AxiosGetStations n) s = s"
| "perform (PointForCoordinate latitude longitude) s = s"
| "perform (AxiosGetObservation i) s = s"

fun performAll :: "effect list \<Rightarrow> app \<Rightarrow> app" where
  "performAll [] s = s"
| "performAll (e # es) s = performAll es (perform e s)"

section \<open>Station directory\<close>

definition isUpperAZ :: "char \<Rightarrow> bool" where
  "isUpperAZ c = (of_char (CHR ''A'') \<le> (of_char c :: nat) \<and> (of_char c :: nat) \<le> of_char (CHR ''Z''))"

text \<open>\<open>[A-Z]{n}\<close>: consumes \<open>n\<close> uppercase letters and returns the rest of the input.\<close>

fun matchUpper :: "nat \<Rightarrow> string \<Rightarrow> string option" where
  "matchUpper 0 s = Some s"
| "matchUpper (Suc n) [] = None"
| "matchUpper (Suc n) (c # s) = (if isUpperAZ c then matchUpper n s else None)"

text \<open>\<open>/^K[A-Z]{3}$/.test(id)\<close>: anchored at both ends, no flags.\<close>

definition regexTest :: "string \<Rightarrow> bool" where
  "regexTest s =
     (case s of
        [] \<Rightarrow> False
      | c # r \<Rightarrow> c = CHR ''K'' \<and> matchUpper 3 r = Some [])"

text \<open>
  The filter callback of \<open>fetchAndFilterStations\<close>: \<open>id && /^K[A-Z]{3}$/.test(id)\<close>;
  null and the empty string are falsy.
\<close>

definition majorStation :: "station \<Rightarrow> bool" where
  "majorStation st =
     (case stationIdentifier st of
        None \<Rightarrow> False
      | Some i \<Rightarrow> i \<noteq> [] \<and> regexTest i)"

text \<open>
  The identifier pattern in the specification's words: a non-null string of four
  characters, \<open>K\<close> followed by three uppercase letters.
\<close>

definition fourLetterK :: "string option \<Rightarrow> bool" where
  "fourLetterK i =
     (case i of
        None \<Rightarrow> False
      | Some s \<Rightarrow> length s = 4 \<and> take 1 s = ''K'' \<and> list_all isUpperAZ (drop 1 s))"

definition stationsLimit :: "variant \<Rightarrow> nat" where
  "stationsLimit v = (case v of App_js \<Rightarrow> 500 | Part_000 \<Rightarrow> 2000)"

definition stationsFailure :: string where
  "stationsFailure = ''Failed to fetch station data:''"

text \<open>
  \<open>fetchStations\<close> of App.js after its \<open>await\<close>. Reading \<open>features\<close> of a missing
  \<open>response.data\<close> throws; a missing \<open>features\<close> is handed to \<open>setStations\<close> as it is.
  The \<open>finally\<close> block runs on every path.
\<close>

definition fetchStations :: "stations_response \<Rightarrow> effect list" where
  "fetchStations r =
     (case r of
        Rejected \<Rightarrow> [ConsoleError stationsFailure]
      | Resolved None \<Rightarrow> [ConsoleError stationsFailure]
      | Resolved (Some d) \<Rightarrow> [SetStations (features d)])
     @ [SetLoading False]"

text \<open>
  \<open>fetchAndFilterStations\<close> of the other file after its \<open>await\<close>: calling \<open>filter\<close> on
  a missing \<open>features\<close> throws as well.
\<close>

definition fetchAndFilterStations :: "stations_response \<Rightarrow> effect list" where
  "fetchAndFilterStations r =
     (case r of
        Rejected \<Rightarrow> [ConsoleError stationsFailure]
      | Resolved None \<Rightarrow> [ConsoleError stationsFailure]
      | Resolved (Some d) \<Rightarrow>
          (case features d of
             None \<Rightarrow> [ConsoleError stationsFailure]
           | Some fs \<Rightarrow> [SetStations (Some (filter majorStation fs))]))
     @ [SetLoading False]"

definition loadStations :: "variant \<Rightarrow> stations_response \<Rightarrow> effect list" where
  "loadStations v r = (case v of App_js \<Rightarrow> fetchStations r | Part_000 \<Rightarrow> fetchAndFilterStations r)"

section \<open>Marker selection\<close>

text \<open>\<open>props.x?.value\<close>.\<close>

definition optValue :: "quantity option \<Rightarrow> real option" where
  "optValue q = (case q of None \<Rightarrow> None | Some v \<Rightarrow> v)"

text \<open>
  The value that \<open>response.data.properties.temperature.value\<close> stands for, \<open>None\<close>
  when the payload has no non-null temperature value, whichever link is missing.
\<close>

definition temperatureValue :: "obs_data option \<Rightarrow> real option" where
  "temperatureValue d =
     (case d of
        None \<Rightarrow> None
      | Some dat \<Rightarrow>
          (case properties dat of
             None \<Rightarrow> None
           | Some p \<Rightarrow> optValue (temperature p)))"

definition loadingCallout :: "station \<Rightarrow> point \<Rightarrow> callout" where
  "loadingCallout st point =
     \<lparr>stationName = name st, callout.loading = True, position = point,
      error = None, weather = None\<rparr>"

definition errorCallout :: "string \<Rightarrow> station \<Rightarrow> point \<Rightarrow> callout" where
  "errorCallout msg st point =
     \<lparr>stationName = name st, callout.loading = False, position = point,
      error = Some msg, weather = None\<rparr>"

definition deriveWeather :: "props \<Rightarrow> real \<Rightarrow> weather" where
  "deriveWeather p t =
     \<lparr>temp = tempF t,
      conditions = textDescription p,
      weather.windSpeed = windSpeedMph (optValue (props.windSpeed p)),
      weather.windDirection = degreesToCardinal (optValue (props.windDirection p)),
      humidity = humidityPct (optValue (relativeHumidity p))\<rparr>"

definition readyCallout :: "props \<Rightarrow> real \<Rightarrow> station \<Rightarrow> point \<Rightarrow> callout" where
  "readyCallout p t st point =
     \<lparr>stationName = name st, callout.loading = False, position = point,
      error = None, weather = Some (deriveWeather p t)\<rparr>"

text \<open>
  The body of the \<open>try\<close> block once the response is there. \<open>Inl ()\<close> is the TypeError that
  reading \<open>value\<close> of a missing \<open>temperature\<close> throws: the condition guards \<open>data\<close> and
  \<open>properties\<close>, and reads \<open>temperature.value\<close> without a guard.
\<close>

definition observationCallout :: "station \<Rightarrow> point \<Rightarrow> obs_data option \<Rightarrow> unit + callout" where
  "observationCallout st point d =
     (case d of
        None \<Rightarrow> Inr (errorCallout ''No recent observation.'' st point)
      | Some dat \<Rightarrow>
          (case properties dat of
             None \<Rightarrow> Inr (errorCallout ''No recent observation.'' st point)
           | Some p \<Rightarrow>
               (case temperature p of
                  None \<Rightarrow> Inl ()
                | Some None \<Rightarrow> Inr (errorCallout ''No recent observation.'' st point)
                | Some (Some t) \<Rightarrow> Inr (readyCallout p t st point))))"

definition fetchFailed :: "station \<Rightarrow> point \<Rightarrow> effect list" where
  "fetchFailed st point =
     [ConsoleError ''Failed to fetch observation'',
      SetCalloutData (Some (errorCallout ''Fetch failed.'' st point))]"

text \<open>
  \<open>handleMarkerPress\<close>, cut at its two \<open>await\<close>s: up to the projection request, from the
  point to the observation request, and from the settled request to the end.
\<close>

definition handleMarkerPress_pressed :: "station \<Rightarrow> effect list" where
  "handleMarkerPress_pressed st =
     (case coordinates st of (longitude, latitude) \<Rightarrow> [PointForCoordinate latitude longitude])"

definition handleMarkerPress_located :: "station \<Rightarrow> point \<Rightarrow> effect list" where
  "handleMarkerPress_located st point =
     [SetCalloutData (Some (loadingCallout st point)),
      AxiosGetObservation (stationIdentifier st)]"

definition handleMarkerPress_settled :: "station \<Rightarrow> point \<Rightarrow> obs_response \<Rightarrow> effect list" where
  "handleMarkerPress_settled st point r =
     (case r of
        Rejected \<Rightarrow> fetchFailed st point
      | Resolved d \<Rightarrow>
          (case observationCallout st point d of
             Inl u \<Rightarrow> fetchFailed st point
           | Inr c \<Rightarrow> [SetCalloutData (Some c)]))"

text \<open>One run of the handler from press to end, the map answering \<open>point\<close> and the server \<open>r\<close>.\<close>

definition handleMarkerPress :: "station \<Rightarrow> point \<Rightarrow> obs_response \<Rightarrow> effect list" where
  "handleMarkerPress st point r =
     handleMarkerPress_pressed st @ handleMarkerPress_located st point
     @ handleMarkerPress_settled st point r"

text \<open>The view-models a list of effects publishes, and its projection requests.\<close>

fun published :: "effect list \<Rightarrow> callout list" where
  "published [] = []"
| "published (SetCalloutData (Some c) # es) = c # published es"
| "published (e # es) = published es"

fun projections :: "effect list \<Rightarrow> (real \<times> real) list" where
  "projections [] = []"
| "projections (PointForCoordinate latitude longitude # es) = (latitude, longitude) # projections es"
| "projections (e # es) = projections es"

text \<open>The map's \<open>onPress\<close>.\<close>

definition mapPressed :: "effect list" where
  "mapPressed = [SetCalloutData None]"

section \<open>The event loop\<close>

text \<open>
  The handlers run on one thread and give way at each \<open>await\<close>. The world is the
  component state, the requests that have not settled yet (each stands for a suspended
  handler with its local variables), and the effects performed so far.
\<close>

datatype task =
    StationsRequest
  | PointRequest station
  | ObservationRequest station point

record world =
  screen :: app
  inflight :: "task list"
  history :: "effect list"

datatype event =
    StationsSettled stations_response
  | MarkerPress station
  | PointResolved station point
  | ObservationSettled station point obs_response
  | MapPress

text \<open>The map and its markers are on screen once loading is over; a marker per station.\<close>

definition mapShown :: "app \<Rightarrow> bool" where
  "mapShown s = (\<not> app.loading s \<and> stations s \<noteq> None)"

definition markerShown :: "app \<Rightarrow> station \<Rightarrow> bool" where
  "markerShown s st =
     (\<not> app.loading s \<and> (case stations s of None \<Rightarrow> False | Some fs \<Rightarrow> st \<in> set fs))"

definition act :: "effect list \<Rightarrow> task list \<Rightarrow> world \<Rightarrow> world" where
  "act es ts w =
     \<lparr>screen = performAll es (screen w), inflight = ts, history = history w @ es\<rparr>"

text \<open>The first render and the mount effect, which issues the station request.\<close>

definition mount :: "variant \<Rightarrow> world" where
  "mount v =
     \<lparr>screen = \<lparr>stations = Some [], app.loading = True, calloutData = None, console = []\<rparr>,
      inflight = [StationsRequest],
      history = [AxiosGetStations (stationsLimit v)]\<rparr>"

fun step :: "variant \<Rightarrow> event \<Rightarrow> world \<Rightarrow> world option" where
  "step v (StationsSettled r) w =
     (if StationsRequest \<in> set (inflight w)
      then Some (act (loadStations v r) (remove1 StationsRequest (inflight w)) w)
      else None)"
| "step v (MarkerPress st) w =
     (if markerShown (screen w) st
      then Some (act (handleMarkerPress_pressed st) (PointRequest st # inflight w) w)
      else None)"
| "step v (PointResolved st point) w =
     (if PointRequest st \<in> set (inflight w)
      then Some (act (handleMarkerPress_located st point)
                  (ObservationRequest st point # remove1 (PointRequest st) (inflight w)) w)
      else None)"
| "step v (ObservationSettled st point r) w =
     (if ObservationRequest st point \<in> set (inflight w)
      then Some (act (handleMarkerPress_settled st point r)
                  (remove1 (ObservationRequest st point) (inflight w)) w)
      else None)"
| "step v MapPress w =
     (if mapShown (screen w)
      then Some (act mapPressed (inflight w) w)
      else None)"

fun run :: "variant \<Rightarrow> event list \<Rightarrow> world \<Rightarrow> world option" where
  "run v [] w = Some w"
| "run v (e # es) w = (case step v e w of None \<Rightarrow> None | Some w' \<Rightarrow> run v es w')"

text \<open>The callout that is displayed, if one is, and the station name on it.\<close>

definition displayedCallout :: "world \<Rightarrow> callout option" where
  "displayedCallout w = calloutData (screen w)"

definition mapOnScreen :: "world \<Rightarrow> bool" where
  "mapOnScreen w = mapShown (screen w)"


definition displayedName :: "world \<Rightarrow> string option" where
  "displayedName w = map_option stationName (calloutData (screen w))"

section \<open>Sample inputs\<close>

definition KJFK :: station where
  "KJFK = \<lparr>stationIdentifier = Some ''KJFK'', name = ''New York, Kennedy International Airport'',
            coordinates = (- 73.78, 40.64)\<rparr>"

definition KDEN :: station where
  "KDEN = \<lparr>stationIdentifier = Some ''KDEN'', name = ''Denver International Airport'',
            coordinates = (- 104.66, 39.85)\<rparr>"

definition clearSky :: props where
  "clearSky = \<lparr>temperature = Some (Some 20), textDescription = Some ''Clear'',
                props.windSpeed = Some (Some 10), props.windDirection = Some (Some 270),
                relativeHumidity = Some (Some 40.4)\<rparr>"

text \<open>
  The world after the directory has loaded both stations in App.js and the first one has
  been selected and located: its observation request is in flight.
\<close>

definition afterSelectKJFK :: world where
  "afterSelectKJFK =
     \<lparr>screen = \<lparr>stations = Some [KJFK, KDEN], app.loading = False,
                calloutData = Some (loadingCallout KJFK (120, 300)), console = []\<rparr>,
      inflight = [ObservationRequest KJFK (120, 300)],
      history = [AxiosGetStations 500, SetStations (Some [KJFK, KDEN]), SetLoading False,
                 PointForCoordinate 40.64 (- 73.78),
                 SetCalloutData (Some (loadingCallout KJFK (120, 300))),
                 AxiosGetObservation (Some ''KJFK'')]\<rparr>"

section \<open>Properties of the unit conversion\<close>

text \<open>
  Claim C9. The conversion from metres per second to miles per hour gives null for a
  null or undefined input and \<open>Math.round(mps * 2.237)\<close> otherwise; it maps 10 to 22.
\<close>

theorem windSpeedMph_spec:
  "windSpeedMph None = None
   \<and> (\<forall>mps. windSpeedMph (Some mps) = Some (Math_round (mps * 2.237)))
   \<and> windSpeedMph (Some 10) = Some 22"
  by (simp add: windSpeedMph_def Math_round_def)

lemma length_directions: "length directions = 8"
  by (simp add: directions_def)

lemma js_rem_nonneg: "0 \<le> a \<Longrightarrow> js_rem a 8 = a mod 8"
  by (simp add: js_rem_def sgn_if)

lemma js_rem_neg_le: "a < 0 \<Longrightarrow> js_rem a 8 \<le> 0"
  by (simp add: js_rem_def sgn_if)

lemma Math_round_nonneg_iff: "0 \<le> Math_round x \<longleftrightarrow> - (1 / 2) \<le> x"
  unfolding Math_round_def by (auto simp add: zero_le_floor)

lemma cardinalIndex_range: "- (45 / 2) \<le> d \<Longrightarrow> 0 \<le> cardinalIndex d \<and> cardinalIndex d < 8"
  unfolding cardinalIndex_def
  by (simp add: js_rem_nonneg Math_round_nonneg_iff)

lemma cardinalIndex_neg: "d < - (45 / 2) \<Longrightarrow> cardinalIndex d \<le> 0"
  unfolding cardinalIndex_def
  by (rule js_rem_neg_le) (simp add: Math_round_def floor_less_iff)

lemma degreesToCardinal_label:
  "- (45 / 2) \<le> d \<Longrightarrow> \<exists>l \<in> set directions. degreesToCardinal (Some d) = Val l"
proof -
  assume "- (45 / 2) \<le> d"
  then have r: "0 \<le> cardinalIndex d \<and> cardinalIndex d < 8"
    by (rule cardinalIndex_range)
  then have "nat (cardinalIndex d) < length directions"
    by (simp add: length_directions nat_less_iff)
  then have "directions ! nat (cardinalIndex d) \<in> set directions"
    by (rule nth_mem)
  moreover from r have "degreesToCardinal (Some d) = Val (directions ! nat (cardinalIndex d))"
    by (simp add: degreesToCardinal_def js_index_def length_directions)
  ultimately show ?thesis by blast
qed

lemma degreesToCardinal_agrees:
  "- (45 / 2) \<le> d \<Longrightarrow> degreesToCardinal (Some d) = degreesToCardinal_spec (Some d)"
  using cardinalIndex_range [of d]
  by (simp add: degreesToCardinal_def degreesToCardinal_spec_def js_index_def length_directions
      cardinalIndex_def js_rem_nonneg Math_round_nonneg_iff)

lemma degreesToCardinal_examples:
  "degreesToCardinal (Some 0) = Val ''N''"
  "degreesToCardinal (Some 45) = Val ''NE''"
  "degreesToCardinal (Some 360) = Val ''N''"
  "degreesToCardinal (Some 270) = Val ''W''"
  "degreesToCardinal None = Null"
  by (simp_all add: degreesToCardinal_def js_index_def directions_def cardinalIndex_def
      js_rem_def Math_round_def)

text \<open>
  Claim C3. For every non-null input, negative ones included, the index
  \<open>round(deg / 45) mod 8\<close> lies in \<open>[0, 8)\<close> and the lookup stays inside the table.
  The source takes the remainder with \<open>%\<close>, which keeps the sign of the dividend: at
  \<open>deg = -45\<close> the index is \<open>-1\<close> and the function returns \<open>undefined\<close>. (From
  \<open>-22.5\<close> upwards the index is in range, see \<open>cardinalIndex_range\<close>.)
\<close>

theorem degreesToCardinal_negative_index:
  "cardinalIndex (- 45) = - 1
   \<and> \<not> (0 \<le> cardinalIndex (- 45) \<and> cardinalIndex (- 45) < 8)
   \<and> degreesToCardinal (Some (- 45)) = Undefined"
  by (simp add: degreesToCardinal_def js_index_def directions_def cardinalIndex_def
      js_rem_def Math_round_def)

text \<open>
  Claim C7. \<open>degreesToCardinal\<close> gives N for 0, NE for 45, N for 360 and null for a null
  input (these hold, see \<open>degreesToCardinal_examples\<close>), and for every non-null input the
  label at index \<open>round(deg / 45) mod 8\<close> of the ordered list. At \<open>deg = -45\<close> that label
  is NW, and the source returns \<open>undefined\<close>.
\<close>

theorem degreesToCardinal_differs_from_table:
  "degreesToCardinal_spec (Some (- 45)) = Val ''NW''
   \<and> degreesToCardinal (Some (- 45)) = Undefined
   \<and> degreesToCardinal (Some (- 45)) \<noteq> degreesToCardinal_spec (Some (- 45))"
  by (simp add: degreesToCardinal_def degreesToCardinal_spec_def js_index_def directions_def
      cardinalIndex_def js_rem_def Math_round_def)

section \<open>Properties of the station directory\<close>

lemma matchUpper_end:
  "matchUpper n r = Some [] \<longleftrightarrow> length r = n \<and> list_all isUpperAZ r"
proof (induction n arbitrary: r)
  case 0
  then show ?case by auto
next
  case (Suc n)
  then show ?case by (cases r) auto
qed

lemma regexTest_iff:
  "regexTest s \<longleftrightarrow> length s = 4 \<and> take 1 s = ''K'' \<and> list_all isUpperAZ (drop 1 s)"
proof (cases s)
  case Nil
  then show ?thesis by (simp add: regexTest_def)
next
  case (Cons c r)
  have "matchUpper 3 r = Some [] \<longleftrightarrow> length r = 3 \<and> list_all isUpperAZ r"
    by (rule matchUpper_end)
  with Cons show ?thesis by (auto simp add: regexTest_def)
qed

lemma majorStation_iff: "majorStation st = fourLetterK (stationIdentifier st)"
proof (cases "stationIdentifier st")
  case None
  then show ?thesis by (simp add: majorStation_def fourLetterK_def)
next
  case (Some i)
  then show ?thesis by (auto simp add: majorStation_def fourLetterK_def regexTest_iff)
qed

text \<open>
  Claim C8. The filtering file keeps exactly the stations whose identifier is a non-null
  string of four characters, K followed by three uppercase letters: KJFK and KDEN pass,
  PHNL, K1 and null do not. The other file publishes the fetched stations unfiltered.
\<close>

theorem station_filter_exact:
  "(\<forall>st. majorStation st = fourLetterK (stationIdentifier st))
   \<and> (\<forall>fs. fetchAndFilterStations (Resolved (Some \<lparr>features = Some fs\<rparr>)) =
         [SetStations (Some (filter (\<lambda>st. fourLetterK (stationIdentifier st)) fs)),
          SetLoading False])
   \<and> (\<forall>fs. fetchStations (Resolved (Some \<lparr>features = Some fs\<rparr>)) =
         [SetStations (Some fs), SetLoading False])
   \<and> (\<forall>n c. majorStation \<lparr>stationIdentifier = Some ''KJFK'', name = n, coordinates = c\<rparr>)
   \<and> (\<forall>n c. majorStation \<lparr>stationIdentifier = Some ''KDEN'', name = n, coordinates = c\<rparr>)
   \<and> (\<forall>n c. \<not> majorStation \<lparr>stationIdentifier = Some ''PHNL'', name = n, coordinates = c\<rparr>)
   \<and> (\<forall>n c. \<not> majorStation \<lparr>stationIdentifier = Some ''K1'', name = n, coordinates = c\<rparr>)
   \<and> (\<forall>n c. \<not> majorStation \<lparr>stationIdentifier = None, name = n, coordinates = c\<rparr>)"
proof -
  have "fetchAndFilterStations (Resolved (Some \<lparr>features = Some fs\<rparr>)) =
          [SetStations (Some (filter (\<lambda>st. fourLetterK (stationIdentifier st)) fs)),
           SetLoading False]" for fs
  proof -
    have "filter majorStation fs = filter (\<lambda>st. fourLetterK (stationIdentifier st)) fs"
      by (rule filter_cong) (simp_all add: majorStation_iff)
    then show ?thesis by (simp add: fetchAndFilterStations_def)
  qed
  moreover have "fetchStations (Resolved (Some \<lparr>features = Some fs\<rparr>)) =
          [SetStations (Some fs), SetLoading False]" for fs
    by (simp add: fetchStations_def)
  moreover have "majorStation \<lparr>stationIdentifier = Some ''KJFK'', name = n, coordinates = c\<rparr>"
    "majorStation \<lparr>stationIdentifier = Some ''KDEN'', name = n, coordinates = c\<rparr>"
    "\<not> majorStation \<lparr>stationIdentifier = Some ''PHNL'', name = n, coordinates = c\<rparr>"
    "\<not> majorStation \<lparr>stationIdentifier = Some ''K1'', name = n, coordinates = c\<rparr>"
    "\<not> majorStation \<lparr>stationIdentifier = None, name = n, coordinates = c\<rparr>" for n c
    by (simp_all add: majorStation_def regexTest_def isUpperAZ_def numeral_3_eq_3)
  ultimately show ?thesis
    using majorStation_iff by blast
qed

section \<open>Properties of the event loop\<close>

lemma settled_sets_callout:
  "\<exists>c. calloutData (performAll (handleMarkerPress_settled st point r) s) = Some c
       \<and> stationName c = name st \<and> position c = point \<and> \<not> callout.loading c"
  by (cases r)
    (auto simp add: handleMarkerPress_settled_def fetchFailed_def observationCallout_def
      errorCallout_def readyCallout_def split: option.splits sum.splits)

lemma settled_keeps_map:
  "app.loading (performAll (handleMarkerPress_settled st point r) s) = app.loading s
   \<and> stations (performAll (handleMarkerPress_settled st point r) s) = stations s"
  by (cases r)
    (auto simp add: handleMarkerPress_settled_def fetchFailed_def observationCallout_def
      split: option.splits sum.splits)

lemma step_settled:
  assumes "ObservationRequest st point \<in> set (inflight w)"
  shows "\<exists>w'. step v (ObservationSettled st point r) w = Some w'
           \<and> displayedName w' = Some (name st)
           \<and> inflight w' = remove1 (ObservationRequest st point) (inflight w)
           \<and> app.loading (screen w') = app.loading (screen w)
           \<and> stations (screen w') = stations (screen w)"
  using assms settled_sets_callout [of st point r "screen w"] settled_keeps_map [of st point r "screen w"]
  by (auto simp add: act_def displayedName_def)

text \<open>
  Claim C1. Station A is selected, then station B before A's observation request has
  settled. When A's request settles after B's selection, whether B's own request has
  settled by then or not, its result is published with no check of the station: the
  callout then displayed carries A's name in place of B's.
\<close>

theorem stale_resolution_overwrites:
  assumes "ObservationRequest A pA \<in> set (inflight w)"
    and "markerShown (screen w) B"
  shows "(\<exists>w1 w2. run v [MarkerPress B, PointResolved B pB] w = Some w1
            \<and> displayedName w1 = Some (name B)
            \<and> step v (ObservationSettled A pA rA) w1 = Some w2
            \<and> displayedName w2 = Some (name A))
       \<and> (\<exists>w3. run v [MarkerPress B, PointResolved B pB, ObservationSettled B pB rB,
                       ObservationSettled A pA rA] w = Some w3
            \<and> displayedName w3 = Some (name A))"
proof -
  define w1 where "w1 = act (handleMarkerPress_located B pB) (ObservationRequest B pB # inflight w)
                          (act (handleMarkerPress_pressed B) (PointRequest B # inflight w) w)"
  have run1: "run v [MarkerPress B, PointResolved B pB] w = Some w1"
    using assms(2) by (simp add: w1_def act_def)
  have shown1: "displayedName w1 = Some (name B)"
    by (simp add: w1_def act_def displayedName_def handleMarkerPress_located_def loadingCallout_def)
  have inA1: "ObservationRequest A pA \<in> set (inflight w1)"
    using assms(1) by (simp add: w1_def act_def)
  have inB1: "ObservationRequest B pB \<in> set (inflight w1)"
    by (simp add: w1_def act_def)
  obtain w2 where w2: "step v (ObservationSettled A pA rA) w1 = Some w2"
    "displayedName w2 = Some (name A)"
    using step_settled [OF inA1, of v rA] by blast
  obtain wB where wB: "step v (ObservationSettled B pB rB) w1 = Some wB"
    "inflight wB = remove1 (ObservationRequest B pB) (inflight w1)"
    using step_settled [OF inB1, of v rB] by blast
  have "inflight wB = inflight w"
    using wB(2) by (simp add: w1_def act_def)
  with assms(1) have inA2: "ObservationRequest A pA \<in> set (inflight wB)"
    by simp
  obtain w3 where w3: "step v (ObservationSettled A pA rA) wB = Some w3"
    "displayedName w3 = Some (name A)"
    using step_settled [OF inA2, of v rA] by blast
  have run3: "run v [MarkerPress B, PointResolved B pB, ObservationSettled B pB rB,
                     ObservationSettled A pA rA] w = Some w3"
    using assms(2) wB(1) w3(1) by (simp add: w1_def act_def)
  from run1 shown1 w2 run3 w3(2) show ?thesis by blast
qed

lemma later_resolution_wins:
  assumes "ObservationRequest A pA \<in> set (inflight w)"
    and "ObservationRequest B pB \<in> set (inflight w)"
    and "ObservationRequest A pA \<noteq> ObservationRequest B pB"
  shows "\<exists>w'. run v [ObservationSettled A pA rA, ObservationSettled B pB rB] w = Some w'
           \<and> displayedName w' = Some (name B)"
proof -
  obtain w1 where w1: "step v (ObservationSettled A pA rA) w = Some w1"
    "inflight w1 = remove1 (ObservationRequest A pA) (inflight w)"
    using step_settled [OF assms(1), of v rA] by blast
  have "ObservationRequest B pB \<in> set (inflight w1)"
    using assms(2,3) w1(2) by (metis in_set_remove1)
  then obtain w2 where w2: "step v (ObservationSettled B pB rB) w1 = Some w2"
    "displayedName w2 = Some (name B)"
    using step_settled [of B pB w1 v rB] by blast
  from w1(1) w2 show ?thesis by simp
qed

lemma reach_afterSelectKJFK:
  "run App_js [StationsSettled (Resolved (Some \<lparr>features = Some [KJFK, KDEN]\<rparr>)),
               MarkerPress KJFK, PointResolved KJFK (120, 300)] (mount App_js)
   = Some afterSelectKJFK"
  by (simp add: mount_def act_def loadStations_def fetchStations_def stationsLimit_def
      markerShown_def handleMarkerPress_pressed_def handleMarkerPress_located_def
      afterSelectKJFK_def KJFK_def KDEN_def)

theorem stale_resolution_overwrites_witness:
  "ObservationRequest KJFK (120, 300) \<in> set (inflight afterSelectKJFK)
   \<and> markerShown (screen afterSelectKJFK) KDEN
   \<and> (\<exists>w3. run App_js [MarkerPress KDEN, PointResolved KDEN (200, 310),
                ObservationSettled KDEN (200, 310) (Resolved (Some \<lparr>properties = Some clearSky\<rparr>)),
                ObservationSettled KJFK (120, 300) Rejected] afterSelectKJFK = Some w3
          \<and> displayedName w3 = Some ''New York, Kennedy International Airport'')"
proof -
  have h1: "ObservationRequest KJFK (120, 300) \<in> set (inflight afterSelectKJFK)"
    by (simp add: afterSelectKJFK_def)
  have h2: "markerShown (screen afterSelectKJFK) KDEN"
    by (simp add: afterSelectKJFK_def markerShown_def)
  have n: "name KJFK = ''New York, Kennedy International Airport''"
    by (simp add: KJFK_def)
  show ?thesis
    using h1 h2 stale_resolution_overwrites [OF h1 h2, of App_js "(200, 310)" Rejected
        "Resolved (Some \<lparr>properties = Some clearSky\<rparr>)"] 
    by (simp only: n)
qed





lemma readyCallout_clearSky:
  "readyCallout clearSky 20 KJFK (120, 300) =
     \<lparr>stationName = ''New York, Kennedy International Airport'', callout.loading = False,
      position = (120, 300), error = None,
      weather = Some \<lparr>temp = ToFixed1 68, conditions = Some ''Clear'', weather.windSpeed = Some 22,
                       weather.windDirection = Val ''W'', humidity = Some 40\<rparr>\<rparr>"
  by (simp add: readyCallout_def deriveWeather_def clearSky_def KJFK_def tempF_def
      windSpeedMph_def humidityPct_def optValue_def Math_round_def degreesToCardinal_def
      cardinalIndex_def js_rem_def js_index_def directions_def)


section \<open>Properties of marker selection\<close>

lemma null_temperature_not_available:
  "properties dat = Some p \<Longrightarrow> temperature p = Some None \<Longrightarrow>
   handleMarkerPress_settled st point (Resolved (Some dat)) =
     [SetCalloutData (Some (errorCallout ''No recent observation.'' st point))]"
  by (simp add: handleMarkerPress_settled_def observationCallout_def)

lemma missing_data_not_available:
  "handleMarkerPress_settled st point (Resolved None) =
     [SetCalloutData (Some (errorCallout ''No recent observation.'' st point))]"
  "properties dat = None \<Longrightarrow>
   handleMarkerPress_settled st point (Resolved (Some dat)) =
     [SetCalloutData (Some (errorCallout ''No recent observation.'' st point))]"
  by (simp_all add: handleMarkerPress_settled_def observationCallout_def)

lemma lacking_temperature_never_ready:
  "temperatureValue d = None \<Longrightarrow>
   \<exists>msg. published (handleMarkerPress_settled st point (Resolved d)) = [errorCallout msg st point]"
  by (auto simp add: temperatureValue_def optValue_def handleMarkerPress_settled_def
      observationCallout_def fetchFailed_def split: option.splits)

lemma ready_iff_temperature:
  "temperatureValue d = Some t \<Longrightarrow>
   \<exists>p. published (handleMarkerPress_settled st point (Resolved d)) = [readyCallout p t st point]"
  by (auto simp add: temperatureValue_def optValue_def handleMarkerPress_settled_def
      observationCallout_def fetchFailed_def split: option.splits)

text \<open>
  Claim C2. A response whose payload is present and lacks a non-null temperature value is
  classified NotAvailable ("No recent observation."), never Ready, and apart from the
  FetchFailed of a transport error. That holds where \<open>data\<close> or \<open>properties\<close> is
  missing or the temperature's value is null (the lemmas above). Where the payload has no
  \<open>temperature\<close> object, reading its \<open>value\<close> throws inside the \<open>try\<close> block and the
  source publishes "Fetch failed.", the same effects as for a rejected request.
\<close>

theorem missing_temperature_object_fetch_failed:
  "temperatureValue (Some \<lparr>properties = Some (clearSky\<lparr>temperature := None\<rparr>)\<rparr>) = None
   \<and> handleMarkerPress_settled KJFK (120, 300)
       (Resolved (Some \<lparr>properties = Some (clearSky\<lparr>temperature := None\<rparr>)\<rparr>)) =
     [ConsoleError ''Failed to fetch observation'',
      SetCalloutData (Some (errorCallout ''Fetch failed.'' KJFK (120, 300)))]
   \<and> handleMarkerPress_settled KJFK (120, 300)
       (Resolved (Some \<lparr>properties = Some (clearSky\<lparr>temperature := None\<rparr>)\<rparr>)) =
     handleMarkerPress_settled KJFK (120, 300) Rejected"
  by (simp add: temperatureValue_def optValue_def handleMarkerPress_settled_def
      observationCallout_def fetchFailed_def clearSky_def)

lemma thrown_load_logged:
  "r = Rejected \<or> r = Resolved None \<or> (v = Part_000 \<and> r = Resolved (Some \<lparr>features = None\<rparr>)) \<Longrightarrow>
   map_option screen (run v [StationsSettled r] (mount v)) =
     Some \<lparr>stations = Some [], app.loading = False, calloutData = None,
           console = [stationsFailure]\<rparr>"
  by (cases v)
    (auto simp add: mount_def act_def loadStations_def fetchStations_def
      fetchAndFilterStations_def)

text \<open>
  Claim C5. Every failing directory load, by a network error or a malformed payload, in
  either file, is logged, leaves an empty station collection and ends the loading state.
  That holds for every load that throws (\<open>thrown_load_logged\<close>). In App.js a payload
  without \<open>features\<close> does not throw: nothing is logged, \<open>setStations\<close> receives
  \<open>undefined\<close>, and the map cannot be rendered from it.
\<close>

theorem fetchStations_publishes_undefined:
  "fetchStations (Resolved (Some \<lparr>features = None\<rparr>)) = [SetStations None, SetLoading False]
   \<and> map_option screen
       (run App_js [StationsSettled (Resolved (Some \<lparr>features = None\<rparr>))] (mount App_js)) =
     Some \<lparr>stations = None, app.loading = False, calloutData = None, console = []\<rparr>
   \<and> map_option mapOnScreen
       (run App_js [StationsSettled (Resolved (Some \<lparr>features = None\<rparr>))] (mount App_js)) =
     Some False"
  by (simp add: mount_def act_def loadStations_def fetchStations_def mapShown_def mapOnScreen_def)

lemma derived_fields_null_safe:
  "(weather.windSpeed (deriveWeather p t) \<noteq> None) = (optValue (props.windSpeed p) \<noteq> None)"
  "(humidity (deriveWeather p t) \<noteq> None) = (optValue (relativeHumidity p) \<noteq> None)"
  "(weather.windDirection (deriveWeather p t) \<noteq> Null) = (optValue (props.windDirection p) \<noteq> None)"
  by (auto simp add: deriveWeather_def windSpeedMph_def humidityPct_def degreesToCardinal_def
      js_index_def split: option.splits)

lemma derived_direction_only_if:
  "notNullish (weather.windDirection (deriveWeather p t)) \<Longrightarrow> optValue (props.windDirection p) \<noteq> None"
  by (cases "optValue (props.windDirection p)")
    (simp_all add: deriveWeather_def degreesToCardinal_def)

lemma derived_direction_if:
  "optValue (props.windDirection p) = Some d \<Longrightarrow> - (45 / 2) \<le> d \<Longrightarrow>
   notNullish (weather.windDirection (deriveWeather p t))"
  using degreesToCardinal_label [of d]
  by (auto simp add: deriveWeather_def)

text \<open>
  Claim C10. In the Ready view-model each of wind speed, wind direction and humidity is
  derived exactly when its own source is non-null, whatever the siblings are. That holds for
  wind speed and humidity, and a derived direction has a source (the lemmas above); a
  source direction of \<open>-45\<close> is present and the derived direction is \<open>undefined\<close>, which
  the source's own test \<open>!= null\<close> rejects.
\<close>

theorem negative_direction_not_derived:
  "optValue (props.windDirection (clearSky\<lparr>props.windDirection := Some (Some (- 45))\<rparr>)) = Some (- 45)
   \<and> weather.windDirection (deriveWeather (clearSky\<lparr>props.windDirection := Some (Some (- 45))\<rparr>) 20)
       = Undefined
   \<and> \<not> notNullish
       (weather.windDirection (deriveWeather (clearSky\<lparr>props.windDirection := Some (Some (- 45))\<rparr>) 20))
   \<and> weather.windSpeed (deriveWeather (clearSky\<lparr>props.windDirection := Some (Some (- 45))\<rparr>) 20)
       = Some 22"
  by (simp add: deriveWeather_def clearSky_def optValue_def degreesToCardinal_def js_index_def
      directions_def cardinalIndex_def js_rem_def Math_round_def windSpeedMph_def)

lemma handleMarkerPress_effects:
  "handleMarkerPress_pressed st = [PointForCoordinate (snd (coordinates st)) (fst (coordinates st))]
   \<and> projections (handleMarkerPress st point r) = [(snd (coordinates st), fst (coordinates st))]
   \<and> (\<exists>rest. handleMarkerPress st point r =
         PointForCoordinate (snd (coordinates st)) (fst (coordinates st))
         # SetCalloutData (Some (loadingCallout st point))
         # AxiosGetObservation (stationIdentifier st) # rest
         \<and> projections rest = [])
   \<and> (\<exists>final. published (handleMarkerPress st point r) = [loadingCallout st point, final]
         \<and> (final = errorCallout ''Fetch failed.'' st point
            \<or> final = errorCallout ''No recent observation.'' st point
            \<or> (\<exists>p t. final = readyCallout p t st point)))
   \<and> map position (published (handleMarkerPress st point r)) = [point, point]
   \<and> position (loadingCallout st point) = point
   \<and> (\<forall>msg. position (errorCallout msg st point) = point)
   \<and> (\<forall>p t. position (readyCallout p t st point) = point)"
proof -
  have pressed: "handleMarkerPress_pressed st =
      [PointForCoordinate (snd (coordinates st)) (fst (coordinates st))]"
    by (simp add: handleMarkerPress_pressed_def split: prod.splits)
  have settled: "projections (handleMarkerPress_settled st point r) = []
      \<and> (\<exists>final. published (handleMarkerPress_settled st point r) = [final]
            \<and> position final = point
            \<and> (final = errorCallout ''Fetch failed.'' st point
               \<or> final = errorCallout ''No recent observation.'' st point
               \<or> (\<exists>p t. final = readyCallout p t st point)))"
    by (cases r)
      (auto simp add: handleMarkerPress_settled_def fetchFailed_def observationCallout_def
        errorCallout_def readyCallout_def split: option.splits)
  have whole: "handleMarkerPress st point r =
      PointForCoordinate (snd (coordinates st)) (fst (coordinates st))
      # SetCalloutData (Some (loadingCallout st point))
      # AxiosGetObservation (stationIdentifier st)
      # handleMarkerPress_settled st point r"
    by (simp add: handleMarkerPress_def pressed handleMarkerPress_located_def)
  have anchors: "position (loadingCallout st point) = point"
    "\<forall>msg. position (errorCallout msg st point) = point"
    "\<forall>p t. position (readyCallout p t st point) = point"
    by (simp_all add: loadingCallout_def errorCallout_def readyCallout_def)
  from settled obtain final where final:
    "published (handleMarkerPress_settled st point r) = [final]" "position final = point"
    "final = errorCallout ''Fetch failed.'' st point
       \<or> final = errorCallout ''No recent observation.'' st point
       \<or> (\<exists>p t. final = readyCallout p t st point)"
    by blast
  have pub: "published (handleMarkerPress st point r) = [loadingCallout st point, final]"
    by (simp add: whole final(1))
  have proj: "projections (handleMarkerPress st point r) = [(snd (coordinates st), fst (coordinates st))]"
    using settled by (simp add: whole)
  have pos: "map position (published (handleMarkerPress st point r)) = [point, point]"
    by (simp add: pub final(2) anchors(1))
  from pressed proj whole settled pub final(3) pos anchors show ?thesis
    by blast
qed

lemma located_sets_callout:
  "calloutData (performAll (handleMarkerPress_located st point) s) = Some (loadingCallout st point)"
  by (simp add: handleMarkerPress_located_def)

lemma pressed_keeps_screen:
  "performAll (handleMarkerPress_pressed st) s = s"
  by (simp add: handleMarkerPress_pressed_def split: prod.splits)

text \<open>
  Claim C6, as amended. For every selection the handler requests the anchor exactly once,
  as its first action when the marker is pressed, and awaits the answer: the press itself
  publishes nothing. When the point arrives the Loading view-model is published and only
  then the observation request issued; the Loading, Ready, NotAvailable and FetchFailed
  view-models published for the selection all carry that one point, which is never
  requested again.
\<close>

theorem anchor_requested_once_and_awaited:
  assumes "markerShown (screen w) st"
  shows "(\<exists>w1 w2 w3.
           step v (MarkerPress st) w = Some w1
           \<and> history w1 = history w
               @ [PointForCoordinate (snd (coordinates st)) (fst (coordinates st))]
           \<and> screen w1 = screen w
           \<and> PointRequest st \<in> set (inflight w1)
           \<and> step v (PointResolved st point) w1 = Some w2
           \<and> history w2 = history w1
               @ [SetCalloutData (Some (loadingCallout st point)),
                  AxiosGetObservation (stationIdentifier st)]
           \<and> displayedCallout w2 = Some (loadingCallout st point)
           \<and> step v (ObservationSettled st point r) w2 = Some w3
           \<and> history w3 = history w @ handleMarkerPress st point r
           \<and> map_option position (displayedCallout w3) = Some point)
       \<and> projections (handleMarkerPress st point r) = [(snd (coordinates st), fst (coordinates st))]
       \<and> (\<exists>final. published (handleMarkerPress st point r) = [loadingCallout st point, final]
             \<and> (final = errorCallout ''Fetch failed.'' st point
                \<or> final = errorCallout ''No recent observation.'' st point
                \<or> (\<exists>p t. final = readyCallout p t st point)))
       \<and> map position (published (handleMarkerPress st point r)) = [point, point]
       \<and> position (loadingCallout st point) = point
       \<and> (\<forall>msg. position (errorCallout msg st point) = point)
       \<and> (\<forall>p t. position (readyCallout p t st point) = point)"
proof -
  define w1 where "w1 = act (handleMarkerPress_pressed st) (PointRequest st # inflight w) w"
  define w2 where "w2 = act (handleMarkerPress_located st point)
                          (ObservationRequest st point # inflight w) w1"
  define w3 where "w3 = act (handleMarkerPress_settled st point r)
                          (remove1 (ObservationRequest st point) (inflight w2)) w2"
  have pressed: "handleMarkerPress_pressed st =
      [PointForCoordinate (snd (coordinates st)) (fst (coordinates st))]"
    using handleMarkerPress_effects [of st point r] by blast
  have s1: "step v (MarkerPress st) w = Some w1"
    using assms by (simp add: w1_def)
  have h1: "history w1 = history w
      @ [PointForCoordinate (snd (coordinates st)) (fst (coordinates st))]"
    by (simp add: w1_def act_def pressed)
  have sc1: "screen w1 = screen w"
    by (simp add: w1_def act_def pressed_keeps_screen)
  have in1: "PointRequest st \<in> set (inflight w1)"
    by (simp add: w1_def act_def)
  have s2: "step v (PointResolved st point) w1 = Some w2"
    by (simp add: w1_def w2_def act_def)
  have h2: "history w2 = history w1
      @ [SetCalloutData (Some (loadingCallout st point)),
         AxiosGetObservation (stationIdentifier st)]"
    by (simp add: w2_def act_def handleMarkerPress_located_def)
  have d2: "displayedCallout w2 = Some (loadingCallout st point)"
    by (simp add: w2_def act_def displayedCallout_def located_sets_callout)
  have s3: "step v (ObservationSettled st point r) w2 = Some w3"
    by (simp add: w2_def w3_def act_def)
  have h3: "history w3 = history w @ handleMarkerPress st point r"
    by (simp add: w3_def w2_def w1_def act_def handleMarkerPress_def)
  obtain c where c: "calloutData (performAll (handleMarkerPress_settled st point r) (screen w2)) = Some c"
    "position c = point"
    using settled_sets_callout [of st point r "screen w2"] by blast
  have d3: "map_option position (displayedCallout w3) = Some point"
    using c by (simp add: w3_def act_def displayedCallout_def)
  from s1 h1 sc1 in1 s2 h2 d2 s3 h3 d3
  have run: "\<exists>w1 w2 w3.
           step v (MarkerPress st) w = Some w1
           \<and> history w1 = history w
               @ [PointForCoordinate (snd (coordinates st)) (fst (coordinates st))]
           \<and> screen w1 = screen w
           \<and> PointRequest st \<in> set (inflight w1)
           \<and> step v (PointResolved st point) w1 = Some w2
           \<and> history w2 = history w1
               @ [SetCalloutData (Some (loadingCallout st point)),
                  AxiosGetObservation (stationIdentifier st)]
           \<and> displayedCallout w2 = Some (loadingCallout st point)
           \<and> step v (ObservationSettled st point r) w2 = Some w3
           \<and> history w3 = history w @ handleMarkerPress st point r
           \<and> map_option position (displayedCallout w3) = Some point"
    by blast
  from run handleMarkerPress_effects [of st point r] show ?thesis
    by blast
qed

theorem anchor_requested_once_and_awaited_witness:
  "markerShown (screen afterSelectKJFK) KDEN
   \<and> (\<exists>w1 w2 w3.
         step Part_000 (MarkerPress KDEN) afterSelectKJFK = Some w1
         \<and> screen w1 = screen afterSelectKJFK
         \<and> PointRequest KDEN \<in> set (inflight w1)
         \<and> step Part_000 (PointResolved KDEN (200, 310)) w1 = Some w2
         \<and> displayedCallout w2 = Some (loadingCallout KDEN (200, 310))
         \<and> step Part_000 (ObservationSettled KDEN (200, 310) Rejected) w2 = Some w3
         \<and> history w3 = history afterSelectKJFK @ handleMarkerPress KDEN (200, 310) Rejected
         \<and> map_option position (displayedCallout w3) = Some (200, 310))
   \<and> map position (published (handleMarkerPress KDEN (200, 310) Rejected)) = [(200, 310), (200, 310)]"
proof -
  have h: "markerShown (screen afterSelectKJFK) KDEN"
    by (simp add: afterSelectKJFK_def markerShown_def)
  show ?thesis
    using h anchor_requested_once_and_awaited [OF h, of Part_000 "(200, 310)" Rejected]
    by blast
qed

text \<open>
  Claim C6 as stated fails: the anchor is not there synchronously at selection time. The
  handler awaits the projection, so after the press nothing is published and the point
  request is pending; a tap on the map can come first, and the Loading view-model of the
  selection is published after that dismissal, when the point arrives.
\<close>

theorem loading_published_after_dismissal:
  "map_option displayedCallout
     (run App_js [StationsSettled (Resolved (Some \<lparr>features = Some [KJFK, KDEN]\<rparr>)),
                  MarkerPress KDEN] (mount App_js)) = Some None
   \<and> map_option inflight
     (run App_js [StationsSettled (Resolved (Some \<lparr>features = Some [KJFK, KDEN]\<rparr>)),
                  MarkerPress KDEN] (mount App_js)) = Some [PointRequest KDEN]
   \<and> map_option displayedCallout
     (run App_js [StationsSettled (Resolved (Some \<lparr>features = Some [KJFK, KDEN]\<rparr>)),
                  MarkerPress KDEN, MapPress] (mount App_js)) = Some None
   \<and> map_option displayedCallout
     (run App_js [StationsSettled (Resolved (Some \<lparr>features = Some [KJFK, KDEN]\<rparr>)),
                  MarkerPress KDEN, MapPress, PointResolved KDEN (200, 310)] (mount App_js))
     = Some (Some (loadingCallout KDEN (200, 310)))"
  by (simp add: mount_def act_def loadStations_def fetchStations_def stationsLimit_def
      markerShown_def mapShown_def mapPressed_def displayedCallout_def
      handleMarkerPress_pressed_def handleMarkerPress_located_def
      KJFK_def KDEN_def)

lemma step_history:
  "step v (MarkerPress st) w = Some w1 \<Longrightarrow> step v (PointResolved st point) w1 = Some w2 \<Longrightarrow>
   step v (ObservationSettled st point r) w2 = Some w3 \<Longrightarrow>
   history w3 = history w @ handleMarkerPress st point r"
  by (auto simp add: act_def handleMarkerPress_def split: if_splits)


end
